theory Spec2Isabelle
  imports Main
begin

section \<open>JavaScript values\<close>

text \<open>
  The replies of the worker are untyped at run time: the handlers of
  \<^verbatim>\<open>background-app.ts\<close> test fields of the reply with \<^verbatim>\<open>if (x)\<close>, that is with
  JavaScript's ToBoolean. The values are modelled with the cases ToBoolean distinguishes.
  Numbers are the integer-valued ones and NaN.
\<close>

datatype jsval =
    JUndefined
  | JNull
  | JBool bool
  | JNum int
  | JNaN
  | JStr string
  | JArr "jsval list"
  | JObj "(string \<times> jsval) list"

text \<open>ToBoolean: \<^verbatim>\<open>undefined\<close>, \<^verbatim>\<open>null\<close>, \<^verbatim>\<open>false\<close>, \<^verbatim>\<open>0\<close>, \<^verbatim>\<open>NaN\<close> and \<^verbatim>\<open>""\<close> are falsy,
  everything else (every array and object, also the empty ones) is truthy.\<close>

fun truthy :: "jsval \<Rightarrow> bool" where
  "truthy JUndefined = False"
| "truthy JNull = False"
| "truthy (JBool b) = b"
| "truthy (JNum n) = (n \<noteq> 0)"
| "truthy JNaN = False"
| "truthy (JStr s) = (s \<noteq> [])"
| "truthy (JArr xs) = True"
| "truthy (JObj fs) = True"

text \<open>Modelled from the spec: the response interfaces of \<^verbatim>\<open>helpers/process\<close>
  (\<^verbatim>\<open>LoadProjectResponse\<close> and the others), which are not among the sources. A reply of
  the worker is an object with a kind-specific field (\<open>err\<close>, \<open>available\<close>, \<open>symbols\<close>,
  \<open>data\<close>) that may be missing; reading a field the object does not have gives
  \<^verbatim>\<open>undefined\<close>.\<close>

type_synonym response = "(string \<times> jsval) list"

definition js_get :: "response \<Rightarrow> string \<Rightarrow> jsval" where
  "js_get data k = (case map_of data k of None \<Rightarrow> JUndefined | Some v \<Rightarrow> v)"

section \<open>Signals to the UI\<close>

text \<open>Modelled from the spec: the enums \<^verbatim>\<open>Message\<close> and \<^verbatim>\<open>Status\<close> of
  \<^verbatim>\<open>shared/ipc-constants\<close>, which is not among the sources; the members are the ones
  \<^verbatim>\<open>background-app.ts\<close> names.\<close>

datatype Message =
    Config
  | LoadProject
  | PrevState
  | DirectStateTransition
  | GetSymbols
  | GetMetadata
  | GetData
  | ToggleLibs
  | DisableExport
  | EnableExport

datatype Status = Success | Failure

text \<open>\<^verbatim>\<open>e.sender\<close>, the reply channel of an inbound command.\<close>

type_synonym sender = nat

text \<open>One call \<^verbatim>\<open>sender.send(msg, status, payload)\<close>.\<close>

datatype signal = Signal sender Message Status jsval

definition success :: "sender \<Rightarrow> Message \<Rightarrow> jsval \<Rightarrow> signal" where
  "success sender msg payload = Signal sender msg Success payload"

definition error :: "sender \<Rightarrow> Message \<Rightarrow> jsval \<Rightarrow> signal" where
  "error sender msg payload = Signal sender msg Failure payload"

section \<open>The reply callbacks of the command handlers\<close>

text \<open>Each function is the callback a handler passes to \<^verbatim>\<open>.then\<close> on the promise of
  \<^verbatim>\<open>slaveProcess.send\<close>; the result is the list of signals it sends, in order.\<close>

definition LoadProject_then :: "sender \<Rightarrow> response \<Rightarrow> signal list" where
  "LoadProject_then e data =
     (if truthy (js_get data ''err'')
      then [error e LoadProject (js_get data ''err'')]
      else [success e LoadProject JNull])"

definition PrevState_then :: "sender \<Rightarrow> response \<Rightarrow> signal list" where
  "PrevState_then e data =
     (if truthy (js_get data ''available'')
      then [success e PrevState (js_get data ''available'')]
      else [error e PrevState (js_get data ''available'')])"

definition DirectStateTransition_then :: "sender \<Rightarrow> response \<Rightarrow> signal list" where
  "DirectStateTransition_then e data =
     (if truthy (js_get data ''available'')
      then [success e DirectStateTransition (js_get data ''available'')]
      else [error e DirectStateTransition (js_get data ''available'')])"

definition GetSymbols_then :: "sender \<Rightarrow> response \<Rightarrow> signal list" where
  "GetSymbols_then e data =
     (if truthy (js_get data ''symbols'')
      then [success e GetSymbols (js_get data ''symbols'')]
      else [])"

definition GetMetadata_then :: "sender \<Rightarrow> response \<Rightarrow> signal list" where
  "GetMetadata_then e response =
     (if truthy (js_get response ''data'')
      then [success e GetMetadata (js_get response ''data'')]
      else [error e GetMetadata JNull])"

definition GetData_then :: "sender \<Rightarrow> response \<Rightarrow> signal list" where
  "GetData_then e response =
     (if truthy (js_get response ''data'')
      then [success e GetData (js_get response ''data'')]
      else [error e GetData JNull])"

definition ToggleLibs_then :: "sender \<Rightarrow> response \<Rightarrow> signal list" where
  "ToggleLibs_then e data = [success e ToggleLibs (JBool True)]"

section \<open>Promises\<close>

text \<open>How a promise settles: fulfilled with a value or rejected with a reason.\<close>

datatype 'a settlement = Resolved 'a | Rejected jsval

text \<open>\<^verbatim>\<open>p.then(f, g)\<close> for callbacks that act on a state: \<open>f\<close> runs when \<open>p\<close> is
  fulfilled, \<open>g\<close> when it is rejected.\<close>

definition then2 :: "('a \<Rightarrow> 's \<Rightarrow> 's) \<Rightarrow> (jsval \<Rightarrow> 's \<Rightarrow> 's) \<Rightarrow> 'a settlement \<Rightarrow> 's \<Rightarrow> 's" where
  "then2 f g p s = (case p of Resolved v \<Rightarrow> f v s | Rejected r \<Rightarrow> g r s)"

text \<open>\<^verbatim>\<open>p.then(f)\<close> with a callback that sends signals: a rejected \<open>p\<close> skips \<open>f\<close>, and
  the promise \<^verbatim>\<open>p.then(f)\<close> is rejected with the same reason; a fulfilled \<open>p\<close> runs \<open>f\<close>
  and the promise is fulfilled with what \<open>f\<close> returns (\<^verbatim>\<open>undefined\<close> here).\<close>

definition then1 :: "('a \<Rightarrow> signal list) \<Rightarrow> 'a settlement \<Rightarrow> signal list \<times> jsval settlement" where
  "then1 f p = (case p of Resolved v \<Rightarrow> (f v, Resolved JUndefined) | Rejected r \<Rightarrow> ([], Rejected r))"

section \<open>TaskQueue\<close>

text \<open>What happens to a task, in the order it happens.\<close>

datatype 't occurrence = Started 't | Settled 't "jsval settlement"

text \<open>
  \<open>queue\<close> is the private field of the class. \<open>running\<close> is what the event loop
  holds: the tasks that were called and whose promise has not settled. \<open>history\<close>
  records the calls and settlements.
\<close>

record 't TaskQueue =
  queue :: "'t list"
  running :: "'t list"
  history :: "'t occurrence list"

definition new_TaskQueue :: "'t TaskQueue" where
  "new_TaskQueue = \<lparr>queue = [], running = [], history = []\<rparr>"

text \<open>\<^verbatim>\<open>Array.prototype.unshift\<close> adds at the front; \<^verbatim>\<open>Array.prototype.pop\<close> removes the
  last element and returns it, \<^verbatim>\<open>undefined\<close> on an empty array.\<close>

definition unshift :: "'a \<Rightarrow> 'a list \<Rightarrow> 'a list" where
  "unshift x xs = x # xs"

definition pop :: "'a list \<Rightarrow> 'a option \<times> 'a list" where
  "pop xs = (if xs = [] then (None, []) else (Some (last xs), butlast xs))"

text \<open>Calling \<^verbatim>\<open>task()\<close>: the task starts, its promise is pending.\<close>

definition call_task :: "'t \<Rightarrow> 't TaskQueue \<Rightarrow> 't TaskQueue" where
  "call_task t q = q\<lparr>running := running q @ [t], history := history q @ [Started t]\<rparr>"

definition next_task :: "'t TaskQueue \<Rightarrow> 't TaskQueue" where
  "next_task q =
     (case pop (queue q) of
        (None, rest) \<Rightarrow> q\<lparr>queue := rest\<rparr>
      | (Some task, rest) \<Rightarrow> call_task task (q\<lparr>queue := rest\<rparr>))"

definition push :: "'t \<Rightarrow> 't TaskQueue \<Rightarrow> 't TaskQueue" where
  "push task q =
     (let q' = q\<lparr>queue := unshift task (queue q)\<rparr>
      in if length (queue q') = 1 then next_task q' else q')"

text \<open>
  The promise of a running task settles. The callbacks registered by
  \<^verbatim>\<open>task().then(() => this.next(), () => this.next())\<close> run: either one calls \<open>next\<close>.
  A task that is not running has no pending promise, so nothing happens.
\<close>

definition settle :: "'t \<Rightarrow> jsval settlement \<Rightarrow> 't TaskQueue \<Rightarrow> 't TaskQueue" where
  "settle t p q =
     (if t \<in> set (running q)
      then then2 (\<lambda>_. next_task) (\<lambda>_. next_task) p
             (q\<lparr>running := remove1 t (running q), history := history q @ [Settled t p]\<rparr>)
      else q)"

section \<open>BackgroundApp\<close>

text \<open>Modelled from the spec: the type \<^verbatim>\<open>State\<close> of \<^verbatim>\<open>states/state\<close>, which is not among
  the sources: an opaque snapshot identifier.\<close>

datatype State = State nat

text \<open>
  A task is one of the seven closures that the handlers push. Each captures the reply
  channel \<^verbatim>\<open>e.sender\<close> and the parameters of its command.
\<close>

datatype task =
    LoadProjectTask sender jsval jsval
  | PrevStateTask sender
  | DirectStateTransitionTask sender jsval
  | GetSymbolsTask sender
  | GetMetadataTask sender jsval
  | GetDataTask sender
  | ToggleLibsTask sender

text \<open>The object the task passes to \<^verbatim>\<open>slaveProcess.send\<close>: the topic and the parameters.\<close>

fun request :: "task \<Rightarrow> Message \<times> (string \<times> jsval) list" where
  "request (LoadProjectTask e tsconfig showLibs) =
     (LoadProject, [(''tsconfig'', tsconfig), (''showLibs'', showLibs)])"
| "request (PrevStateTask e) = (PrevState, [])"
| "request (DirectStateTransitionTask e ident) = (DirectStateTransition, [(''id'', ident)])"
| "request (GetSymbolsTask e) = (GetSymbols, [])"
| "request (GetMetadataTask e ident) = (GetMetadata, [(''id'', ident)])"
| "request (GetDataTask e) = (GetData, [])"
| "request (ToggleLibsTask e) = (ToggleLibs, [])"

text \<open>The callback the task chains on the round trip.\<close>

fun task_then :: "task \<Rightarrow> response \<Rightarrow> signal list" where
  "task_then (LoadProjectTask e tsconfig showLibs) = LoadProject_then e"
| "task_then (PrevStateTask e) = PrevState_then e"
| "task_then (DirectStateTransitionTask e ident) = DirectStateTransition_then e"
| "task_then (GetSymbolsTask e) = GetSymbols_then e"
| "task_then (GetMetadataTask e ident) = GetMetadata_then e"
| "task_then (GetDataTask e) = GetData_then e"
| "task_then (ToggleLibsTask e) = ToggleLibs_then e"

text \<open>
  \<open>export_enabled\<close> is \<^verbatim>\<open>menus.items[0].submenu.items[1].enabled\<close>, \<open>config\<close> the
  argument of \<open>init\<close> that the Config handler captures, \<open>sent\<close> every signal sent so far.
  The calls of \<^verbatim>\<open>console.log\<close>, and the test of \<^verbatim>\<open>slaveProcess.connected\<close> that only
  chooses between two of them, change nothing and are left out.
\<close>

record BackgroundApp =
  states :: "State list"
  taskQueue :: "task TaskQueue"
  config :: jsval
  export_enabled :: bool
  sent :: "signal list"

text \<open>The constructor (\<open>states = []\<close>) followed by \<open>init(config)\<close>.\<close>

definition init :: "jsval \<Rightarrow> bool \<Rightarrow> BackgroundApp" where
  "init cfg menu =
     \<lparr>states = [], taskQueue = new_TaskQueue, config = cfg, export_enabled = menu, sent = []\<rparr>"

text \<open>The inbound commands, one per \<^verbatim>\<open>ipcMain.on\<close> registration, with their arguments.\<close>

datatype command =
    OnConfig
  | OnLoadProject jsval jsval
  | OnPrevState
  | OnDirectStateTransition jsval
  | OnGetSymbols
  | OnGetMetadata jsval
  | OnGetData
  | OnToggleLibs
  | OnDisableExport
  | OnEnableExport

definition enqueue :: "task \<Rightarrow> BackgroundApp \<Rightarrow> BackgroundApp" where
  "enqueue t a = a\<lparr>taskQueue := push t (taskQueue a)\<rparr>"

definition emit :: "signal list \<Rightarrow> BackgroundApp \<Rightarrow> BackgroundApp" where
  "emit sigs a = a\<lparr>sent := sent a @ sigs\<rparr>"

fun ipc :: "sender \<Rightarrow> command \<Rightarrow> BackgroundApp \<Rightarrow> BackgroundApp" where
  "ipc e OnConfig a = emit [success e Config (config a)] a"
| "ipc e (OnLoadProject tsconfig showLibs) a = enqueue (LoadProjectTask e tsconfig showLibs) a"
| "ipc e OnPrevState a = enqueue (PrevStateTask e) a"
| "ipc e (OnDirectStateTransition ident) a = enqueue (DirectStateTransitionTask e ident) a"
| "ipc e OnGetSymbols a = enqueue (GetSymbolsTask e) a"
| "ipc e (OnGetMetadata ident) a = enqueue (GetMetadataTask e ident) a"
| "ipc e OnGetData a = enqueue (GetDataTask e) a"
| "ipc e OnToggleLibs a = enqueue (ToggleLibsTask e) a"
| "ipc e OnDisableExport a = emit [success e DisableExport (JBool True)] (a\<lparr>export_enabled := False\<rparr>)"
| "ipc e OnEnableExport a = emit [success e EnableExport (JBool True)] (a\<lparr>export_enabled := True\<rparr>)"

text \<open>
  Modelled from the spec: \<^verbatim>\<open>SlaveProcess.send\<close> of \<^verbatim>\<open>helpers/process\<close>, which is not
  among the sources: one round trip, whose promise is fulfilled with a reply or rejected,
  at a time the worker chooses.

  The round trip of a running task settles: the task's callback runs if the round trip
  was fulfilled, then the task's own promise settles and the queue's callbacks run.
\<close>

definition worker_settles :: "task \<Rightarrow> response settlement \<Rightarrow> BackgroundApp \<Rightarrow> BackgroundApp" where
  "worker_settles t p a =
     (if t \<in> set (running (taskQueue a))
      then (case then1 (task_then t) p of
              (sigs, outcome) \<Rightarrow> (emit sigs a)\<lparr>taskQueue := settle t outcome (taskQueue a)\<rparr>)
      else a)"

datatype event = Ipc sender command | WorkerSettles task "response settlement"

fun step :: "event \<Rightarrow> BackgroundApp \<Rightarrow> BackgroundApp" where
  "step (Ipc e c) a = ipc e c a"
| "step (WorkerSettles t p) a = worker_settles t p a"

definition run :: "event list \<Rightarrow> BackgroundApp \<Rightarrow> BackgroundApp" where
  "run evs a = foldl (\<lambda>s ev. step ev s) a evs"

text \<open>Reading an array at an index: \<^verbatim>\<open>undefined\<close> outside \<open>0 .. length - 1\<close>.\<close>

definition js_index :: "'a list \<Rightarrow> int \<Rightarrow> 'a option" where
  "js_index xs i = (if 0 \<le> i \<and> i < int (length xs) then Some (xs ! nat i) else None)"

text \<open>The getter \<^verbatim>\<open>get state()\<close>.\<close>

definition state :: "BackgroundApp \<Rightarrow> State option" where
  "state a = js_index (states a) (int (length (states a)) - 1)"

section \<open>Basic facts\<close>

lemma next_task_empty: "queue q = [] \<Longrightarrow> next_task q = q"
  by (simp add: next_task_def pop_def)

lemma next_task_nonempty:
  "queue q \<noteq> [] \<Longrightarrow>
   next_task q = q\<lparr>queue := butlast (queue q), running := running q @ [last (queue q)],
                    history := history q @ [Started (last (queue q))]\<rparr>"
  by (simp add: next_task_def pop_def call_task_def)

lemma push_empty:
  "queue q = [] \<Longrightarrow>
   push t q = q\<lparr>queue := [], running := running q @ [t], history := history q @ [Started t]\<rparr>"
  by (simp add: push_def unshift_def next_task_def pop_def call_task_def)

lemma push_nonempty: "queue q \<noteq> [] \<Longrightarrow> push t q = q\<lparr>queue := t # queue q\<rparr>"
  by (cases "queue q") (simp_all add: push_def unshift_def)

lemma settle_running:
  "t \<in> set (running q) \<Longrightarrow>
   settle t p q = next_task (q\<lparr>running := remove1 t (running q), history := history q @ [Settled t p]\<rparr>)"
  by (cases p) (simp_all add: settle_def then2_def)

lemma settle_queue_empty: "queue q = [] \<Longrightarrow> queue (settle t p q) = []"
  by (cases p) (simp_all add: settle_def then2_def next_task_empty)

lemma step_queue_empty:
  "queue (taskQueue a) = [] \<Longrightarrow> queue (taskQueue (step ev a)) = []"
proof (cases ev)
  case (Ipc e c)
  assume "queue (taskQueue a) = []"
  then show ?thesis using Ipc
    by (cases c) (simp_all add: enqueue_def emit_def push_empty)
next
  case (WorkerSettles t p)
  assume "queue (taskQueue a) = []"
  then show ?thesis using WorkerSettles
    by (simp add: worker_settles_def emit_def settle_queue_empty split: prod.splits)
qed

lemma run_snoc: "run (evs @ [ev]) a = step ev (run evs a)"
  by (simp add: run_def)

lemma run_queue_empty: "queue (taskQueue (run evs (init cfg menu))) = []"
proof (induction evs rule: rev_induct)
  case Nil
  show ?case by (simp add: run_def init_def new_TaskQueue_def)
next
  case (snoc ev evs)
  then show ?case by (simp add: run_snoc step_queue_empty)
qed

lemma step_states: "states (step ev a) = states a"
proof (cases ev)
  case (Ipc e c)
  then show ?thesis by (cases c) (simp_all add: enqueue_def emit_def)
next
  case (WorkerSettles t p)
  then show ?thesis
    by (simp add: worker_settles_def emit_def split: prod.splits)
qed

lemma run_states: "states (run evs a) = states a"
  by (induction evs rule: rev_induct) (simp_all add: run_def step_states)

lemma worker_resolves_sent:
  "t \<in> set (running (taskQueue a)) \<Longrightarrow>
   sent (worker_settles t (Resolved data) a) = sent a @ task_then t data"
  by (simp add: worker_settles_def then1_def emit_def)

lemma worker_rejects_sent: "sent (worker_settles t (Rejected r) a) = sent a"
  by (simp add: worker_settles_def then1_def emit_def)

lemmas model_defs =
  run_def init_def new_TaskQueue_def enqueue_def emit_def worker_settles_def
  push_def unshift_def pop_def next_task_def call_task_def settle_def then1_def then2_def
  LoadProject_then_def PrevState_then_def DirectStateTransition_then_def GetSymbols_then_def
  GetMetadata_then_def GetData_then_def ToggleLibs_then_def success_def error_def js_get_def

section \<open>The queue: mutual exclusion and order\<close>

text \<open>
  C1. Mutual exclusion: at most one task is executing at any instant; a task pushed while
  a dispatched task has not settled does not begin until that task settles, even though
  the earlier task has left the backlog.

  The code does not provide this. \<open>next\<close> pops the task it starts, so the backlog is
  empty while that task runs; the next \<open>push\<close> then sees a backlog of length one and
  calls \<open>next\<close> itself. Pushing \<open>a\<close> and then \<open>b\<close> on a fresh queue, with no settlement in
  between, leaves both running.
\<close>

theorem C1_second_push_overlaps:
  "running (push b (push a new_TaskQueue)) = [a, b]
   \<and> queue (push b (push a new_TaskQueue)) = []
   \<and> history (push b (push a new_TaskQueue)) = [Started a, Started b]"
  by (simp add: push_def unshift_def pop_def next_task_def call_task_def new_TaskQueue_def)

text \<open>
  C2. FIFO settlement: tasks settle in the order they were pushed, however long each
  takes; the signal of a later task is observable only after the earlier task settled.

  The code does not provide this either, for the same reason as C1: both round trips are
  under way at once, so the one that is answered first settles first. A load-project
  command followed by a toggle-libraries command, the worker answering the second one
  first: the toggle-libraries signal is sent while the load-project task is still running.
\<close>

theorem C2_later_task_settles_first:
  "sent (run [Ipc 0 (OnLoadProject (JStr ''tsconfig.json'') (JBool False)),
              Ipc 0 OnToggleLibs,
              WorkerSettles (ToggleLibsTask 0) (Resolved [])] (init JNull True))
     = [Signal 0 ToggleLibs Success (JBool True)]
   \<and> running (taskQueue (run [Ipc 0 (OnLoadProject (JStr ''tsconfig.json'') (JBool False)),
              Ipc 0 OnToggleLibs,
              WorkerSettles (ToggleLibsTask 0) (Resolved [])] (init JNull True)))
     = [LoadProjectTask 0 (JStr ''tsconfig.json'') (JBool False)]
   \<and> history (taskQueue (run [Ipc 0 (OnLoadProject (JStr ''tsconfig.json'') (JBool False)),
              Ipc 0 OnToggleLibs,
              WorkerSettles (ToggleLibsTask 0) (Resolved [])] (init JNull True)))
     = [Started (LoadProjectTask 0 (JStr ''tsconfig.json'') (JBool False)),
        Started (ToggleLibsTask 0),
        Settled (ToggleLibsTask 0) (Resolved JUndefined)]"
  by (simp add: model_defs)

section \<open>Project state history\<close>

text \<open>
  C9. No operation of the core writes the \<open>states\<close> sequence: every event leaves it as
  it was. It starts empty, so after any sequence of events it is empty and the getter
  \<open>state\<close> returns \<^verbatim>\<open>undefined\<close>.
\<close>

theorem C9_states_never_written:
  "states (step ev a) = states a
   \<and> states (init cfg menu) = []
   \<and> states (run evs (init cfg menu)) = []
   \<and> state (run evs (init cfg menu)) = None"
  by (simp add: step_states run_states state_def js_index_def init_def)

section \<open>Facts about one event\<close>

lemma step_rejected:
  "t \<in> set (running (taskQueue s)) \<Longrightarrow>
   step (WorkerSettles t (Rejected r)) s =
     s\<lparr>taskQueue := next_task ((taskQueue s)\<lparr>running := remove1 t (running (taskQueue s)),
          history := history (taskQueue s) @ [Settled t (Rejected r)]\<rparr>)\<rparr>"
  by (simp add: worker_settles_def then1_def emit_def settle_running)

lemma enqueue_empty:
  "queue (taskQueue s) = [] \<Longrightarrow>
   enqueue t s = s\<lparr>taskQueue := (taskQueue s)\<lparr>queue := [], running := running (taskQueue s) @ [t],
       history := history (taskQueue s) @ [Started t]\<rparr>\<rparr>"
  by (simp add: enqueue_def push_empty)

lemma remove1_append_mem: "a \<in> set xs \<Longrightarrow> b \<in> set (remove1 a (xs @ [b]))"
  by (simp add: remove1_append)

section \<open>The queue: failures\<close>

text \<open>
  C3. The queue absorbs the failure of a task. When the promise of a running task \<open>a\<close>
  is rejected, the queue's rejection callback runs \<open>next\<close>, exactly as for a fulfilled
  promise: the oldest task of the backlog, if there is one, is started (first two
  conjuncts, for any state of a queue). In the application, from any state \<open>s\<close> it can
  reach: the rejection of a running task \<open>A\<close> sends nothing and changes only the queue;
  a task \<open>B\<close> pushed afterwards is started by that push, and when its round trip is
  answered its callback's signals are sent. The same holds when \<open>B\<close> was pushed before
  \<open>A\<close> was rejected.
\<close>

theorem C3_rejection_absorbed:
  assumes a: "a \<in> set (running q)"
    and reach: "s = run evs (init cfg menu)"
    and A: "A \<in> set (running (taskQueue s))"
    and s1: "s1 = step (WorkerSettles A (Rejected r)) s"
    and s2: "s2 = enqueue B s1"
    and s3: "s3 = step (WorkerSettles A (Rejected r)) (enqueue B s)"
  shows "settle a (Rejected r) q =
           next_task (q\<lparr>running := remove1 a (running q),
                        history := history q @ [Settled a (Rejected r)]\<rparr>)
       \<and> (queue q \<noteq> [] \<longrightarrow>
            running (settle a (Rejected r) q) = remove1 a (running q) @ [last (queue q)]
            \<and> queue (settle a (Rejected r) q) = butlast (queue q))
       \<and> s1 = s\<lparr>taskQueue := next_task ((taskQueue s)\<lparr>running := remove1 A (running (taskQueue s)),
                   history := history (taskQueue s) @ [Settled A (Rejected r)]\<rparr>)\<rparr>
       \<and> sent s1 = sent s
       \<and> running (taskQueue s2) = remove1 A (running (taskQueue s)) @ [B]
       \<and> last (history (taskQueue s2)) = Started B
       \<and> sent (step (WorkerSettles B (Resolved data)) s2) = sent s @ task_then B data
       \<and> B \<in> set (running (taskQueue s3))
       \<and> sent (step (WorkerSettles B (Resolved data)) s3) = sent s @ task_then B data"
proof -
  have g1: "settle a (Rejected r) q =
           next_task (q\<lparr>running := remove1 a (running q),
                        history := history q @ [Settled a (Rejected r)]\<rparr>)"
    using a by (rule settle_running)
  have g2: "queue q \<noteq> [] \<longrightarrow>
            running (settle a (Rejected r) q) = remove1 a (running q) @ [last (queue q)]
            \<and> queue (settle a (Rejected r) q) = butlast (queue q)"
    by (simp add: g1 next_task_nonempty)
  have q: "queue (taskQueue s) = []"
    using reach by (simp add: run_queue_empty)
  have e1: "s1 = s\<lparr>taskQueue := next_task ((taskQueue s)\<lparr>running := remove1 A (running (taskQueue s)),
                   history := history (taskQueue s) @ [Settled A (Rejected r)]\<rparr>)\<rparr>"
    using step_rejected [OF A, of r] s1 by simp
  have e1': "s1 = s\<lparr>taskQueue := (taskQueue s)\<lparr>running := remove1 A (running (taskQueue s)),
                   history := history (taskQueue s) @ [Settled A (Rejected r)]\<rparr>\<rparr>"
    using e1 q by (simp add: next_task_empty)
  have q1: "queue (taskQueue s1) = []"
    using e1' q by simp
  have r2: "running (taskQueue s2) = remove1 A (running (taskQueue s)) @ [B]"
    using s2 q1 e1' by (simp add: enqueue_empty)
  have h2: "last (history (taskQueue s2)) = Started B"
    using s2 q1 by (simp add: enqueue_empty)
  have sent2: "sent s2 = sent s"
    using s2 q1 e1' by (simp add: enqueue_empty)
  have "B \<in> set (running (taskQueue s2))"
    using r2 by simp
  then have g7: "sent (step (WorkerSettles B (Resolved data)) s2) = sent s @ task_then B data"
    using sent2 by (simp add: worker_resolves_sent)
  let ?sB = "enqueue B s"
  have eB: "?sB = s\<lparr>taskQueue := (taskQueue s)\<lparr>queue := [], running := running (taskQueue s) @ [B],
       history := history (taskQueue s) @ [Started B]\<rparr>\<rparr>"
    using q by (rule enqueue_empty)
  have AB: "A \<in> set (running (taskQueue ?sB))"
    using A eB by simp
  have e3: "s3 = ?sB\<lparr>taskQueue := next_task ((taskQueue ?sB)\<lparr>running := remove1 A (running (taskQueue ?sB)),
                   history := history (taskQueue ?sB) @ [Settled A (Rejected r)]\<rparr>)\<rparr>"
    using step_rejected [OF AB, of r] s3 by simp
  have r3: "running (taskQueue s3) = remove1 A (running (taskQueue s) @ [B])"
    by (simp add: e3 eB next_task_empty)
  have sent3: "sent s3 = sent s"
    by (simp add: e3 eB)
  have g8: "B \<in> set (running (taskQueue s3))"
    using r3 A by (simp only: remove1_append_mem)
  then have g9: "sent (step (WorkerSettles B (Resolved data)) s3) = sent s @ task_then B data"
    using sent3 by (simp add: worker_resolves_sent)
  show ?thesis
    using g1 g2 e1 e1' r2 h2 g7 g8 g9 by simp
qed

theorem C3_rejection_absorbed_witness:
  "running (settle (0::nat) (Rejected (JStr ''exit'')) \<lparr>queue = [2, 1], running = [0], history = []\<rparr>) = [1]
   \<and> queue (settle (0::nat) (Rejected (JStr ''exit'')) \<lparr>queue = [2, 1], running = [0], history = []\<rparr>) = [2]
   \<and> sent (step (WorkerSettles (GetDataTask 0) (Rejected (JStr ''exit'')))
             (run [Ipc 0 OnGetData] (init JNull True))) = []
   \<and> sent (step (WorkerSettles (ToggleLibsTask 1) (Resolved []))
             (enqueue (ToggleLibsTask 1)
               (step (WorkerSettles (GetDataTask 0) (Rejected (JStr ''exit'')))
                 (run [Ipc 0 OnGetData] (init JNull True)))))
       = [Signal 1 ToggleLibs Success (JBool True)]
   \<and> sent (step (WorkerSettles (ToggleLibsTask 1) (Resolved []))
             (step (WorkerSettles (GetDataTask 0) (Rejected (JStr ''exit'')))
               (enqueue (ToggleLibsTask 1) (run [Ipc 0 OnGetData] (init JNull True)))))
       = [Signal 1 ToggleLibs Success (JBool True)]"
proof -
  let ?q = "\<lparr>queue = [2, 1], running = [0::nat], history = []\<rparr>"
  let ?s = "run [Ipc 0 OnGetData] (init JNull True)"
  have a: "(0::nat) \<in> set (running ?q)"
    by simp
  have A: "GetDataTask 0 \<in> set (running (taskQueue ?s))"
    by (simp add: model_defs)
  have s0: "sent ?s = []"
    by (simp add: model_defs)
  have q: "queue ?q \<noteq> []"
    by simp
  note th = C3_rejection_absorbed [OF a refl A refl refl refl, of "JStr ''exit''" "ToggleLibsTask 1" "[]"]
  have w1: "running (settle 0 (Rejected (JStr ''exit'')) ?q) = [1]
            \<and> queue (settle 0 (Rejected (JStr ''exit'')) ?q) = [2]"
    using th [THEN conjunct2, THEN conjunct1] q by simp
  have w2: "sent (step (WorkerSettles (GetDataTask 0) (Rejected (JStr ''exit''))) ?s) = []"
    using th [THEN conjunct2, THEN conjunct2, THEN conjunct2, THEN conjunct1] s0 by simp
  have w3: "sent (step (WorkerSettles (ToggleLibsTask 1) (Resolved []))
             (enqueue (ToggleLibsTask 1)
               (step (WorkerSettles (GetDataTask 0) (Rejected (JStr ''exit''))) ?s)))
       = [Signal 1 ToggleLibs Success (JBool True)]"
    using th [THEN conjunct2, THEN conjunct2, THEN conjunct2, THEN conjunct2, THEN conjunct2,
              THEN conjunct2, THEN conjunct1] s0
    by (simp add: ToggleLibs_then_def success_def)
  have w4: "sent (step (WorkerSettles (ToggleLibsTask 1) (Resolved []))
             (step (WorkerSettles (GetDataTask 0) (Rejected (JStr ''exit'')))
               (enqueue (ToggleLibsTask 1) ?s)))
       = [Signal 1 ToggleLibs Success (JBool True)]"
    using th [THEN conjunct2, THEN conjunct2, THEN conjunct2, THEN conjunct2, THEN conjunct2,
              THEN conjunct2, THEN conjunct2, THEN conjunct2] s0
    by (simp add: ToggleLibs_then_def success_def)
  show ?thesis
    using w1 w2 w3 w4 by blast
qed

section \<open>Response mapping\<close>

text \<open>
  C4, as the code has it. When the round trip of a running load-project task is
  answered, exactly one signal is sent: Failure carrying the reply's \<open>err\<close> field when
  that field is truthy, Success carrying \<^verbatim>\<open>null\<close> when it is falsy. An absent or
  \<^verbatim>\<open>null\<close> field is one falsy case; the claim as written takes it for the only one.
\<close>

theorem C4_load_project_mapping:
  assumes "LoadProjectTask e tsconfig showLibs \<in> set (running (taskQueue s))"
  shows "sent (step (WorkerSettles (LoadProjectTask e tsconfig showLibs) (Resolved data)) s) =
           sent s @ [if truthy (js_get data ''err'')
                     then Signal e LoadProject Failure (js_get data ''err'')
                     else Signal e LoadProject Success JNull]"
  using assms by (simp add: worker_resolves_sent LoadProject_then_def success_def error_def)

theorem C4_load_project_mapping_witness:
  "sent (step (WorkerSettles (LoadProjectTask 0 (JStr ''tsconfig.json'') (JBool False))
                 (Resolved [(''err'', JStr ''X'')]))
           (run [Ipc 0 (OnLoadProject (JStr ''tsconfig.json'') (JBool False))] (init JNull True)))
     = [Signal 0 LoadProject Failure (JStr ''X'')]
   \<and> sent (step (WorkerSettles (LoadProjectTask 0 (JStr ''tsconfig.json'') (JBool False))
                 (Resolved [(''err'', JNull)]))
           (run [Ipc 0 (OnLoadProject (JStr ''tsconfig.json'') (JBool False))] (init JNull True)))
     = [Signal 0 LoadProject Success JNull]"
proof -
  let ?t = "LoadProjectTask 0 (JStr ''tsconfig.json'') (JBool False)"
  let ?s = "run [Ipc 0 (OnLoadProject (JStr ''tsconfig.json'') (JBool False))] (init JNull True)"
  have r: "?t \<in> set (running (taskQueue ?s))"
    by (simp add: model_defs)
  have s0: "sent ?s = []"
    by (simp add: model_defs)
  show ?thesis
    using C4_load_project_mapping [OF r, of "[(''err'', JStr ''X'')]"]
          C4_load_project_mapping [OF r, of "[(''err'', JNull)]"] s0
    by (simp add: js_get_def)
qed

text \<open>
  C4 as written fails on a reply whose \<open>err\<close> field is the empty string: the field is
  neither absent nor \<^verbatim>\<open>null\<close>, yet the signal is Success with \<^verbatim>\<open>null\<close>, not Failure
  with the empty string.
\<close>

theorem C4_empty_error_string:
  "js_get [(''err'', JStr [])] ''err'' \<noteq> JUndefined
   \<and> js_get [(''err'', JStr [])] ''err'' \<noteq> JNull
   \<and> sent (run [Ipc 0 (OnLoadProject (JStr ''tsconfig.json'') (JBool False)),
                WorkerSettles (LoadProjectTask 0 (JStr ''tsconfig.json'') (JBool False))
                  (Resolved [(''err'', JStr [])])] (init JNull True))
       = [Signal 0 LoadProject Success JNull]
   \<and> sent (run [Ipc 0 (OnLoadProject (JStr ''tsconfig.json'') (JBool False)),
                WorkerSettles (LoadProjectTask 0 (JStr ''tsconfig.json'') (JBool False))
                  (Resolved [(''err'', JStr [])])] (init JNull True))
       \<noteq> [Signal 0 LoadProject Failure (JStr [])]"
  by (simp add: model_defs)

text \<open>
  C5. When the round trip of a running get-previous-state or transition-to-state task is
  answered, one signal is sent, carrying the reply's \<open>available\<close> field: Success when
  the field is truthy, Failure otherwise.
\<close>

theorem C5_available_mapping:
  "(PrevStateTask e \<in> set (running (taskQueue s)) \<longrightarrow>
      sent (step (WorkerSettles (PrevStateTask e) (Resolved data)) s) =
        sent s @ [Signal e PrevState
                    (if truthy (js_get data ''available'') then Success else Failure)
                    (js_get data ''available'')])
   \<and> (DirectStateTransitionTask e ident \<in> set (running (taskQueue s)) \<longrightarrow>
      sent (step (WorkerSettles (DirectStateTransitionTask e ident) (Resolved data)) s) =
        sent s @ [Signal e DirectStateTransition
                    (if truthy (js_get data ''available'') then Success else Failure)
                    (js_get data ''available'')])"
  by (simp add: worker_resolves_sent PrevState_then_def DirectStateTransition_then_def
        success_def error_def)

theorem C5_available_mapping_witness:
  "sent (step (WorkerSettles (PrevStateTask 0) (Resolved [(''available'', JStr ''state-1'')]))
           (run [Ipc 0 OnPrevState] (init JNull True)))
     = [Signal 0 PrevState Success (JStr ''state-1'')]
   \<and> sent (step (WorkerSettles (DirectStateTransitionTask 0 (JStr ''id-7''))
                 (Resolved [(''available'', JBool False)]))
           (run [Ipc 0 (OnDirectStateTransition (JStr ''id-7''))] (init JNull True)))
     = [Signal 0 DirectStateTransition Failure (JBool False)]"
proof -
  let ?s = "run [Ipc 0 OnPrevState] (init JNull True)"
  let ?s' = "run [Ipc 0 (OnDirectStateTransition (JStr ''id-7''))] (init JNull True)"
  have r: "PrevStateTask 0 \<in> set (running (taskQueue ?s))"
    by (simp add: model_defs)
  have r': "DirectStateTransitionTask 0 (JStr ''id-7'') \<in> set (running (taskQueue ?s'))"
    by (simp add: model_defs)
  have s0: "sent ?s = []" and s0': "sent ?s' = []"
    by (simp_all add: model_defs)
  have w1: "sent (step (WorkerSettles (PrevStateTask 0) (Resolved [(''available'', JStr ''state-1'')])) ?s)
     = [Signal 0 PrevState Success (JStr ''state-1'')]"
    using C5_available_mapping [of 0 ?s "[(''available'', JStr ''state-1'')]", THEN conjunct1] r s0
    by (simp add: js_get_def)
  have w2: "sent (step (WorkerSettles (DirectStateTransitionTask 0 (JStr ''id-7''))
                 (Resolved [(''available'', JBool False)])) ?s')
     = [Signal 0 DirectStateTransition Failure (JBool False)]"
    using C5_available_mapping [of 0 ?s' "[(''available'', JBool False)]" "JStr ''id-7''", THEN conjunct2] r' s0'
    by (simp add: js_get_def)
  show ?thesis
    using w1 w2 by blast
qed

text \<open>
  C6, as the code has it. When the round trip of a running get-metadata or get-data task
  is answered, one signal is sent: Success carrying the reply's \<open>data\<close> field when the
  field is truthy, Failure carrying \<^verbatim>\<open>null\<close> when it is falsy, whether it is absent or
  present.
\<close>

theorem C6_data_mapping:
  "(GetMetadataTask e ident \<in> set (running (taskQueue s)) \<longrightarrow>
      sent (step (WorkerSettles (GetMetadataTask e ident) (Resolved response)) s) =
        sent s @ [if truthy (js_get response ''data'')
                  then Signal e GetMetadata Success (js_get response ''data'')
                  else Signal e GetMetadata Failure JNull])
   \<and> (GetDataTask e \<in> set (running (taskQueue s)) \<longrightarrow>
      sent (step (WorkerSettles (GetDataTask e) (Resolved response)) s) =
        sent s @ [if truthy (js_get response ''data'')
                  then Signal e GetData Success (js_get response ''data'')
                  else Signal e GetData Failure JNull])"
  by (simp add: worker_resolves_sent GetMetadata_then_def GetData_then_def
        success_def error_def)

theorem C6_data_mapping_witness:
  "sent (step (WorkerSettles (GetMetadataTask 0 (JStr ''id-7''))
                 (Resolved [(''data'', JObj [(''filePath'', JStr ''a.ts'')])]))
           (run [Ipc 0 (OnGetMetadata (JStr ''id-7''))] (init JNull True)))
     = [Signal 0 GetMetadata Success (JObj [(''filePath'', JStr ''a.ts'')])]
   \<and> sent (step (WorkerSettles (GetDataTask 0) (Resolved []))
           (run [Ipc 0 OnGetData] (init JNull True)))
     = [Signal 0 GetData Failure JNull]"
proof -
  let ?s = "run [Ipc 0 (OnGetMetadata (JStr ''id-7''))] (init JNull True)"
  let ?s' = "run [Ipc 0 OnGetData] (init JNull True)"
  have r: "GetMetadataTask 0 (JStr ''id-7'') \<in> set (running (taskQueue ?s))"
    by (simp add: model_defs)
  have r': "GetDataTask 0 \<in> set (running (taskQueue ?s'))"
    by (simp add: model_defs)
  have s0: "sent ?s = []" and s0': "sent ?s' = []"
    by (simp_all add: model_defs)
  have w1: "sent (step (WorkerSettles (GetMetadataTask 0 (JStr ''id-7''))
                 (Resolved [(''data'', JObj [(''filePath'', JStr ''a.ts'')])])) ?s)
     = [Signal 0 GetMetadata Success (JObj [(''filePath'', JStr ''a.ts'')])]"
    using C6_data_mapping [of 0 "JStr ''id-7''" ?s "[(''data'', JObj [(''filePath'', JStr ''a.ts'')])]",
            THEN conjunct1] r s0
    by (simp add: js_get_def)
  have w2: "sent (step (WorkerSettles (GetDataTask 0) (Resolved [])) ?s')
     = [Signal 0 GetData Failure JNull]"
    using C6_data_mapping [of 0 _ ?s' "[]", THEN conjunct2] r' s0'
    by (simp add: js_get_def)
  show ?thesis
    using w1 w2 by blast
qed

text \<open>
  C6 as written fails on a reply that carries a falsy payload: a get-data reply whose
  \<open>data\<close> field is the empty string, and a get-metadata reply whose \<open>data\<close> field is
  \<open>0\<close>, are answered with Failure and \<^verbatim>\<open>null\<close>, not with Success and the payload.
\<close>

theorem C6_falsy_payload:
  "map_of [(''data'', JStr [])] ''data'' = Some (JStr [])
   \<and> sent (run [Ipc 0 OnGetData,
                WorkerSettles (GetDataTask 0) (Resolved [(''data'', JStr [])])] (init JNull True))
       = [Signal 0 GetData Failure JNull]
   \<and> sent (run [Ipc 0 OnGetData,
                WorkerSettles (GetDataTask 0) (Resolved [(''data'', JStr [])])] (init JNull True))
       \<noteq> [Signal 0 GetData Success (JStr [])]
   \<and> map_of [(''data'', JNum 0)] ''data'' = Some (JNum 0)
   \<and> sent (run [Ipc 0 (OnGetMetadata (JStr ''id-7'')),
                WorkerSettles (GetMetadataTask 0 (JStr ''id-7'')) (Resolved [(''data'', JNum 0)])]
              (init JNull True))
       = [Signal 0 GetMetadata Failure JNull]
   \<and> sent (run [Ipc 0 (OnGetMetadata (JStr ''id-7'')),
                WorkerSettles (GetMetadataTask 0 (JStr ''id-7'')) (Resolved [(''data'', JNum 0)])]
              (init JNull True))
       \<noteq> [Signal 0 GetMetadata Success (JNum 0)]"
  by (simp add: model_defs)

text \<open>
  C7, as the code has it. When the round trip of a running list-symbols task is answered
  and the reply's \<open>symbols\<close> field is truthy, which every array is, also the empty one,
  Success carrying that field is sent; otherwise nothing is sent, in particular when the
  field is absent. A Failure signal is never sent. The tasks whose callback sends Failure
  for no reply at all are the list-symbols and the toggle-libraries tasks, and no others.
\<close>

theorem C7_list_symbols_mapping:
  assumes "GetSymbolsTask e \<in> set (running (taskQueue s))"
  shows "sent (step (WorkerSettles (GetSymbolsTask e) (Resolved data)) s) =
           sent s @ (if truthy (js_get data ''symbols'')
                     then [Signal e GetSymbols Success (js_get data ''symbols'')]
                     else [])
       \<and> (js_get data ''symbols'' = JArr xs \<longrightarrow>
            sent (step (WorkerSettles (GetSymbolsTask e) (Resolved data)) s) =
              sent s @ [Signal e GetSymbols Success (JArr xs)])
       \<and> (map_of data ''symbols'' = None \<longrightarrow>
            sent (step (WorkerSettles (GetSymbolsTask e) (Resolved data)) s) = sent s)
       \<and> Signal e' m Failure v \<notin> set (task_then (GetSymbolsTask e) data)
       \<and> ((\<forall>reply e'' m' v'. Signal e'' m' Failure v' \<notin> set (task_then t reply)) =
            ((\<exists>e''. t = GetSymbolsTask e'') \<or> (\<exists>e''. t = ToggleLibsTask e'')))"
proof -
  have m: "sent (step (WorkerSettles (GetSymbolsTask e) (Resolved data)) s) =
           sent s @ (if truthy (js_get data ''symbols'')
                     then [Signal e GetSymbols Success (js_get data ''symbols'')]
                     else [])"
    using assms by (simp add: worker_resolves_sent GetSymbols_then_def success_def)
  have a: "map_of data ''symbols'' = None \<longrightarrow> \<not> truthy (js_get data ''symbols'')"
    by (simp add: js_get_def)
  have f: "Signal e' m Failure v \<notin> set (task_then (GetSymbolsTask e) data)"
    by (simp add: GetSymbols_then_def success_def)
  have paths: "(\<forall>reply e'' m' v'. Signal e'' m' Failure v' \<notin> set (task_then t reply)) =
            ((\<exists>e''. t = GetSymbolsTask e'') \<or> (\<exists>e''. t = ToggleLibsTask e''))"
  proof (cases t)
    case (LoadProjectTask e1 tsconfig showLibs)
    have "Signal e1 LoadProject Failure (JStr ''X'') \<in> set (task_then t [(''err'', JStr ''X'')])"
      by (simp add: LoadProjectTask LoadProject_then_def error_def js_get_def)
    then show ?thesis using LoadProjectTask by blast
  next
    case (PrevStateTask e1)
    have "Signal e1 PrevState Failure JUndefined \<in> set (task_then t [])"
      by (simp add: PrevStateTask PrevState_then_def error_def js_get_def)
    then show ?thesis using PrevStateTask by blast
  next
    case (DirectStateTransitionTask e1 ident)
    have "Signal e1 DirectStateTransition Failure JUndefined \<in> set (task_then t [])"
      by (simp add: DirectStateTransitionTask DirectStateTransition_then_def error_def js_get_def)
    then show ?thesis using DirectStateTransitionTask by blast
  next
    case (GetSymbolsTask e1)
    then show ?thesis by (simp add: GetSymbols_then_def success_def)
  next
    case (GetMetadataTask e1 ident)
    have "Signal e1 GetMetadata Failure JNull \<in> set (task_then t [])"
      by (simp add: GetMetadataTask GetMetadata_then_def error_def js_get_def)
    then show ?thesis using GetMetadataTask by blast
  next
    case (GetDataTask e1)
    have "Signal e1 GetData Failure JNull \<in> set (task_then t [])"
      by (simp add: GetDataTask GetData_then_def error_def js_get_def)
    then show ?thesis using GetDataTask by blast
  next
    case (ToggleLibsTask e1)
    then show ?thesis by (simp add: ToggleLibs_then_def success_def)
  qed
  show ?thesis
    using m a f paths by simp
qed

theorem C7_list_symbols_mapping_witness:
  "sent (step (WorkerSettles (GetSymbolsTask 0) (Resolved [(''symbols'', JArr [])]))
           (run [Ipc 0 OnGetSymbols] (init JNull True)))
     = [Signal 0 GetSymbols Success (JArr [])]
   \<and> sent (step (WorkerSettles (GetSymbolsTask 0) (Resolved []))
           (run [Ipc 0 OnGetSymbols] (init JNull True)))
     = []
   \<and> Signal 0 ToggleLibs Failure JNull \<notin> set (task_then (ToggleLibsTask 0) [])
   \<and> (\<exists>reply e m v. Signal e m Failure v \<in> set (task_then (GetDataTask 0) reply))"
proof -
  let ?s = "run [Ipc 0 OnGetSymbols] (init JNull True)"
  have r: "GetSymbolsTask 0 \<in> set (running (taskQueue ?s))"
    by (simp add: model_defs)
  have s0: "sent ?s = []"
    by (simp add: model_defs)
  have g: "js_get [(''symbols'', JArr [])] ''symbols'' = JArr []"
    by (simp add: js_get_def)
  have n: "map_of ([] :: response) ''symbols'' = None"
    by simp
  have w1: "sent (step (WorkerSettles (GetSymbolsTask 0) (Resolved [(''symbols'', JArr [])])) ?s)
     = [Signal 0 GetSymbols Success (JArr [])]"
    using C7_list_symbols_mapping [OF r, of "[(''symbols'', JArr [])]" "[]",
            THEN conjunct2, THEN conjunct1] g s0
    by simp
  have w2: "sent (step (WorkerSettles (GetSymbolsTask 0) (Resolved [])) ?s) = []"
    using C7_list_symbols_mapping [OF r, of "[]",
            THEN conjunct2, THEN conjunct2, THEN conjunct1] n s0
    by simp
  have w3: "Signal 0 ToggleLibs Failure JNull \<notin> set (task_then (ToggleLibsTask 0) [])"
    using C7_list_symbols_mapping [OF r, of _ _ _ _ _ "ToggleLibsTask 0",
            THEN conjunct2, THEN conjunct2, THEN conjunct2, THEN conjunct2]
    by blast
  have w4: "\<exists>reply e m v. Signal e m Failure v \<in> set (task_then (GetDataTask 0) reply)"
    using C7_list_symbols_mapping [OF r, of _ _ _ _ _ "GetDataTask 0",
            THEN conjunct2, THEN conjunct2, THEN conjunct2, THEN conjunct2]
    by blast
  show ?thesis
    using w1 w2 w3 w4 by blast
qed

text \<open>
  C7 as written calls list-symbols the only command kind with no Failure path on an
  answered round trip. The toggle-libraries task has none either: its callback sends
  Success carrying \<open>true\<close> for every reply, so not every task without a Failure path is
  a list-symbols task.
\<close>

theorem C7_toggle_libs_has_no_failure_path:
  "(\<forall>reply e m v. Signal e m Failure v \<notin> set (task_then (ToggleLibsTask 0) reply))
   \<and> fst (request (ToggleLibsTask 0)) \<noteq> GetSymbols
   \<and> sent (run [Ipc 0 OnToggleLibs, WorkerSettles (ToggleLibsTask 0) (Resolved [])]
              (init JNull True))
       = [Signal 0 ToggleLibs Success (JBool True)]
   \<and> \<not> (\<forall>t. (\<forall>reply e m v. Signal e m Failure v \<notin> set (task_then t reply)) \<longrightarrow>
              (\<exists>e. t = GetSymbolsTask e))"
proof -
  have nf: "\<forall>reply e m v. Signal e m Failure v \<notin> set (task_then (ToggleLibsTask 0) reply)"
    by (simp add: ToggleLibs_then_def success_def)
  have kind: "fst (request (ToggleLibsTask 0)) \<noteq> GetSymbols"
    by simp
  have ex: "sent (run [Ipc 0 OnToggleLibs, WorkerSettles (ToggleLibsTask 0) (Resolved [])]
              (init JNull True))
       = [Signal 0 ToggleLibs Success (JBool True)]"
    by (simp add: model_defs)
  have neg: "\<not> (\<forall>t. (\<forall>reply e m v. Signal e m Failure v \<notin> set (task_then t reply)) \<longrightarrow>
              (\<exists>e. t = GetSymbolsTask e))"
  proof
    assume "\<forall>t. (\<forall>reply e m v. Signal e m Failure v \<notin> set (task_then t reply)) \<longrightarrow>
              (\<exists>e. t = GetSymbolsTask e)"
    then have "\<exists>e. ToggleLibsTask 0 = GetSymbolsTask e"
      using nf by blast
    then show False by simp
  qed
  show ?thesis
    using nf kind ex neg by blast
qed

text \<open>
  C8, as the code has it. When the round trip of a running toggle-libraries task is
  fulfilled, whatever the reply, Success carrying \<open>true\<close> is sent. When it is rejected,
  nothing is sent: the task chains a fulfilment callback only.
\<close>

theorem C8_toggle_libs_mapping:
  assumes "ToggleLibsTask e \<in> set (running (taskQueue s))"
  shows "sent (step (WorkerSettles (ToggleLibsTask e) (Resolved data)) s) =
           sent s @ [Signal e ToggleLibs Success (JBool True)]
       \<and> sent (step (WorkerSettles (ToggleLibsTask e) (Rejected r)) s) = sent s"
  using assms
  by (simp add: worker_resolves_sent worker_rejects_sent ToggleLibs_then_def success_def)

theorem C8_toggle_libs_mapping_witness:
  "sent (step (WorkerSettles (ToggleLibsTask 0) (Resolved [(''topic'', JStr ''toggle-libs'')]))
           (run [Ipc 0 OnToggleLibs] (init JNull True)))
     = [Signal 0 ToggleLibs Success (JBool True)]
   \<and> sent (step (WorkerSettles (ToggleLibsTask 0) (Rejected (JStr ''channel closed'')))
           (run [Ipc 0 OnToggleLibs] (init JNull True)))
     = []"
proof -
  let ?s = "run [Ipc 0 OnToggleLibs] (init JNull True)"
  have r: "ToggleLibsTask 0 \<in> set (running (taskQueue ?s))"
    by (simp add: model_defs)
  have s0: "sent ?s = []"
    by (simp add: model_defs)
  show ?thesis
    using C8_toggle_libs_mapping [OF r, of "[(''topic'', JStr ''toggle-libs'')]" "JStr ''channel closed''"] s0
    by simp
qed

text \<open>
  C8 as written fails on a rejected round trip: the task settles, rejected, and leaves
  the running tasks, and no signal has been sent.
\<close>

theorem C8_rejected_round_trip:
  "sent (run [Ipc 0 OnToggleLibs,
              WorkerSettles (ToggleLibsTask 0) (Rejected (JStr ''channel closed''))]
           (init JNull True)) = []
   \<and> history (taskQueue (run [Ipc 0 OnToggleLibs,
              WorkerSettles (ToggleLibsTask 0) (Rejected (JStr ''channel closed''))]
           (init JNull True)))
       = [Started (ToggleLibsTask 0),
          Settled (ToggleLibsTask 0) (Rejected (JStr ''channel closed''))]
   \<and> running (taskQueue (run [Ipc 0 OnToggleLibs,
              WorkerSettles (ToggleLibsTask 0) (Rejected (JStr ''channel closed''))]
           (init JNull True))) = []"
  by (simp add: model_defs)

text \<open>
  C10. For get-metadata and get-data the test is the truthiness of the reply's \<open>data\<close>
  field, not its presence: a reply whose \<open>data\<close> field is present with a falsy value
  \<open>d\<close> is answered with Failure carrying \<^verbatim>\<open>null\<close>, not with Success carrying \<open>d\<close>. The
  empty string, \<open>0\<close>, \<open>false\<close> and \<^verbatim>\<open>null\<close> are such values.
\<close>

theorem C10_present_but_falsy:
  assumes "map_of response ''data'' = Some d" and "\<not> truthy d"
  shows "(GetMetadataTask e ident \<in> set (running (taskQueue s)) \<longrightarrow>
            sent (step (WorkerSettles (GetMetadataTask e ident) (Resolved response)) s) =
              sent s @ [Signal e GetMetadata Failure JNull]
            \<and> sent (step (WorkerSettles (GetMetadataTask e ident) (Resolved response)) s) \<noteq>
              sent s @ [Signal e GetMetadata Success d])
       \<and> (GetDataTask e \<in> set (running (taskQueue s)) \<longrightarrow>
            sent (step (WorkerSettles (GetDataTask e) (Resolved response)) s) =
              sent s @ [Signal e GetData Failure JNull]
            \<and> sent (step (WorkerSettles (GetDataTask e) (Resolved response)) s) \<noteq>
              sent s @ [Signal e GetData Success d])
       \<and> \<not> truthy (JStr []) \<and> \<not> truthy (JNum 0) \<and> \<not> truthy (JBool False) \<and> \<not> truthy JNull"
proof -
  have d: "js_get response ''data'' = d"
    using assms(1) by (simp add: js_get_def)
  show ?thesis
    using d assms(2)
    by (simp add: worker_resolves_sent GetMetadata_then_def GetData_then_def
          success_def error_def)
qed

theorem C10_present_but_falsy_witness:
  "sent (step (WorkerSettles (GetMetadataTask 0 (JStr ''id-7'')) (Resolved [(''data'', JNum 0)]))
           (run [Ipc 0 (OnGetMetadata (JStr ''id-7''))] (init JNull True)))
     = [Signal 0 GetMetadata Failure JNull]
   \<and> sent (step (WorkerSettles (GetDataTask 0) (Resolved [(''data'', JBool False)]))
           (run [Ipc 0 OnGetData] (init JNull True)))
     = [Signal 0 GetData Failure JNull]"
proof -
  let ?s = "run [Ipc 0 (OnGetMetadata (JStr ''id-7''))] (init JNull True)"
  let ?s' = "run [Ipc 0 OnGetData] (init JNull True)"
  have r: "GetMetadataTask 0 (JStr ''id-7'') \<in> set (running (taskQueue ?s))"
    by (simp add: model_defs)
  have r': "GetDataTask 0 \<in> set (running (taskQueue ?s'))"
    by (simp add: model_defs)
  have s0: "sent ?s = []" and s0': "sent ?s' = []"
    by (simp_all add: model_defs)
  have p: "map_of [(''data'', JNum 0)] ''data'' = Some (JNum 0)" and f: "\<not> truthy (JNum 0)"
    by simp_all
  have p': "map_of [(''data'', JBool False)] ''data'' = Some (JBool False)"
    and f': "\<not> truthy (JBool False)"
    by simp_all
  have w1: "sent (step (WorkerSettles (GetMetadataTask 0 (JStr ''id-7'')) (Resolved [(''data'', JNum 0)])) ?s)
     = [Signal 0 GetMetadata Failure JNull]"
    using C10_present_but_falsy [OF p f, of 0 "JStr ''id-7''" ?s, THEN conjunct1] r s0
    by simp
  have w2: "sent (step (WorkerSettles (GetDataTask 0) (Resolved [(''data'', JBool False)])) ?s')
     = [Signal 0 GetData Failure JNull]"
    using C10_present_but_falsy [OF p' f', of 0 _ ?s', THEN conjunct2, THEN conjunct1] r' s0'
    by simp
  show ?thesis
    using w1 w2 by blast
qed

end
